theory Spec2Isabelle
  imports Main "HOL-Library.Word"
begin

section \<open>The logging facade of logz (src/log.go)\<close>

text \<open>
  The facade wraps the structured-logging engine go.uber.org/zap. The engine is an
  external collaborator; only the operations the facade calls on it appear here, at the
  boundary the specification draws in its section 6. Everything else is a translation of
  src/log.go, function by function, under the names the source uses.
\<close>

subsection \<open>Values, fields and levels\<close>

text \<open>
  Go's \<^verbatim>\<open>interface{}\<close> arguments are values tagged with their dynamic type. The
  dynamic types that \<^verbatim>\<open>handleFields\<close> tells apart are \<^verbatim>\<open>string\<close>,
  \<^verbatim>\<open>*zap.Field\<close> (a pointer to a field) and everything else; a \<^verbatim>\<open>zap.Field\<close>
  passed by value belongs to "everything else" for the type assertions of the source, and
  has a constructor of its own so that theorems can speak about it.

  A \<^verbatim>\<open>zap.Field\<close> is either Go's zero value \<^verbatim>\<open>zap.Field{}\<close>, which
  \<^verbatim>\<open>make([]zap.Field, n)\<close> fills a fresh slice with, or the field that the engine's
  constructor \<^verbatim>\<open>zap.Any(key, value)\<close> returns.
\<close>

datatype iface =
    IString string
  | IInt int
  | IBool bool
  | INil
  | IField Field
  | IFieldPtr Field
and Field =
    ZeroField
  | Any string iface

fun Key :: "Field \<Rightarrow> string" where
  "Key ZeroField = []"
| "Key (Any k v) = k"

fun Interface :: "Field \<Rightarrow> iface" where
  "Interface ZeroField = INil"
| "Interface (Any k v) = v"

text \<open>The type assertion \<^verbatim>\<open>args[i].(*zap.Field)\<close> of line 109.\<close>

fun is_zap_Field_ptr :: "iface \<Rightarrow> bool" where
  "is_zap_Field_ptr (IFieldPtr f) = True"
| "is_zap_Field_ptr _ = False"

text \<open>The type assertion \<^verbatim>\<open>key.(string)\<close> of line 118: the string, when it is one.\<close>

fun as_string :: "iface \<Rightarrow> string option" where
  "as_string (IString s) = Some s"
| "as_string _ = None"

text \<open>
  Modelled from the spec: the engine's level type is missing from src/. The engine
  declares \<^verbatim>\<open>type Level int8\<close> with the named severities below; the specification
  (sections 4.2 and 4.4) names the same scale, informational severity being 0 and the
  invariant-violation severity of the internal diagnostics being DPanic.
\<close>

type_synonym Level = "8 word"

definition DebugLevel :: Level where "DebugLevel = - 1"
definition InfoLevel :: Level where "InfoLevel = 0"
definition WarnLevel :: Level where "WarnLevel = 1"
definition ErrorLevel :: Level where "ErrorLevel = 2"
definition DPanicLevel :: Level where "DPanicLevel = 3"
definition PanicLevel :: Level where "PanicLevel = 4"
definition FatalLevel :: Level where "FatalLevel = 5"

subsection \<open>The engine boundary\<close>

text \<open>
  Modelled from the spec: the engine handle \<^verbatim>\<open>*zap.Logger\<close> is missing from src/.
  Section 6 of the specification lists what the facade needs of it: a level query, an
  emit operation, and the two derivations by name segment and by fields. The handle is
  a value: the engine never changes a logger it has handed out, each derivation returns
  a changed copy. The handle remembers whether it was built in development mode, which
  New passes on from the options (line 171) and which decides what the engine does
  after a record at the DPanic level (section 9 of the specification).
\<close>

record zap_Logger =
  lname :: string
  bound_fields :: "Field list"
  minLevel :: Level
  development :: bool

text \<open>
  A message is a literal string or the result of \<^verbatim>\<open>fmt.Sprintf(template, args...)\<close>,
  which is kept as the pair it is computed from.
\<close>

datatype message = Msg string | Sprintf string "iface list"

text \<open>
  A call either returns, or panics with a message, or ends the process
  (\<^verbatim>\<open>os.Exit\<close>). Every function below that can be left in one of the last two
  ways returns an outcome next to the state it leaves behind.
\<close>

datatype 'a outcome = Return 'a | Panic message | Exit

fun returned :: "'a outcome \<Rightarrow> 'a option" where
  "returned (Return x) = Some x"
| "returned (Panic m) = None"
| "returned Exit = None"

text \<open>
  Modelled from the spec: \<^verbatim>\<open>emit(engineHandle, level, message, fields)\<close> of section 6.
  A call of one of the engine's logging methods hands one record to the engine. The
  state of the model is the list of records handed over so far, oldest first. Whether
  the engine then puts a record out (its own level filter, sampling, encoding to the
  sinks) lies behind the boundary and is not part of the facade.
\<close>

record Entry =
  ent_logger :: zap_Logger
  ent_level :: Level
  ent_message :: message
  ent_fields :: "Field list"

definition emit :: "zap_Logger \<Rightarrow> Level \<Rightarrow> message \<Rightarrow> Field list \<Rightarrow> Entry list \<Rightarrow> Entry list" where
  "emit l lvl m fs st =
     st @ [\<lparr>ent_logger = l, ent_level = lvl, ent_message = m, ent_fields = fs\<rparr>]"

text \<open>
  Modelled from the spec: \<^verbatim>\<open>isLevelEnabled(engineHandle, level)\<close> of section 6, under a
  minimum-level configuration: a level is enabled when it is at least the minimum, both
  read as signed 8-bit numbers. This is \<^verbatim>\<open>l.Core().Enabled(lvl)\<close>.
\<close>

definition Enabled :: "zap_Logger \<Rightarrow> Level \<Rightarrow> bool" where
  "Enabled l lvl = (sint (minLevel l) \<le> sint lvl)"

text \<open>
  Modelled from the spec: how a logging call on the engine ends. Sections 4.4 and 9 of
  the specification: after the record is handed over, the Panic severity raises a panic
  with the record's message, the Fatal severity ends the process, and the DPanic
  severity raises the panic on a development engine only. Before that, the engine
  encodes the fields of a record whose level is enabled, and its encoder panics on a
  field of unknown type, which the zero-valued \<^verbatim>\<open>zap.Field{}\<close> is. Sampling is not
  modelled: a record at an enabled level is taken to be encoded.
\<close>

definition after_write :: "zap_Logger \<Rightarrow> Level \<Rightarrow> message \<Rightarrow> unit outcome" where
  "after_write l lvl m =
     (if lvl = PanicLevel then Panic m
      else if lvl = FatalLevel then Exit
      else if lvl = DPanicLevel \<and> development l then Panic m
      else Return ())"

definition zap_log ::
  "zap_Logger \<Rightarrow> Level \<Rightarrow> message \<Rightarrow> Field list \<Rightarrow> Entry list \<Rightarrow> unit outcome \<times> Entry list" where
  "zap_log l lvl m fs st =
     (if Enabled l lvl \<and> ZeroField \<in> set fs then Panic (Msg ''unknown field type'')
      else after_write l lvl m,
      emit l lvl m fs st)"

text \<open>\<^verbatim>\<open>l.DPanic(msg, field)\<close>, the call of lines 110, 114 and 120.\<close>

definition zap_DPanic :: "zap_Logger \<Rightarrow> string \<Rightarrow> Field \<Rightarrow> Entry list \<Rightarrow> unit outcome \<times> Entry list" where
  "zap_DPanic l msg f st = zap_log l DPanicLevel (Msg msg) [f] st"

text \<open>
  \<^verbatim>\<open>l.Info(msg)\<close> without fields, the call of line 248. The informational severity
  has nothing attached to it and there is no field to encode, so the call returns.
\<close>

definition zap_Info :: "zap_Logger \<Rightarrow> string \<Rightarrow> Entry list \<Rightarrow> Entry list" where
  "zap_Info l msg st = emit l InfoLevel (Msg msg) [] st"

text \<open>
  Modelled from the spec: \<^verbatim>\<open>deriveNamed\<close> and \<^verbatim>\<open>deriveWithFields\<close> of section 6.
  Name segments accumulate hierarchically, joined by a dot. Fields are added after the
  ones already bound; the engine encodes them at once, so a field of unknown type makes
  \<^verbatim>\<open>With\<close> panic, and \<^verbatim>\<open>With\<close> of no fields returns the logger as it is.
\<close>

definition zap_Named :: "zap_Logger \<Rightarrow> string \<Rightarrow> zap_Logger" where
  "zap_Named l s =
     (if s = [] then l
      else l\<lparr>lname := (if lname l = [] then s else lname l @ ''.'' @ s)\<rparr>)"

definition zap_With :: "zap_Logger \<Rightarrow> Field list \<Rightarrow> zap_Logger outcome" where
  "zap_With l fs =
     (if fs = [] then Return l
      else if ZeroField \<in> set fs then Panic (Msg ''unknown field type'')
      else Return (l\<lparr>bound_fields := bound_fields l @ fs\<rparr>))"

subsection \<open>handleFields (lines 103 to 129)\<close>

text \<open>
  A diagnostic followed by \<^verbatim>\<open>break\<close>: when the engine call returns, the loop is left
  with the fields appended so far; when it panics, so does handleFields.
\<close>

fun and_break :: "unit outcome \<times> Entry list \<Rightarrow> Field list \<Rightarrow> Field list outcome \<times> Entry list" where
  "and_break (Return u, st) flds = (Return flds, st)"
| "and_break (Panic m, st) flds = (Panic m, st)"
| "and_break (Exit, st) flds = (Exit, st)"

text \<open>
  The loop \<^verbatim>\<open>for i := 0; i < len(args); { ... i += 2 }\<close>, as a recursion on the
  arguments from index \<^verbatim>\<open>i\<close> on. The three equations are \<^verbatim>\<open>i = len(args)\<close>,
  \<^verbatim>\<open>i = len(args) - 1\<close> and \<^verbatim>\<open>i < len(args) - 1\<close>; \<open>flds\<close> is the slice
  \<^verbatim>\<open>fields\<close> that \<^verbatim>\<open>append\<close> builds up.
\<close>

fun handleFields_loop ::
  "zap_Logger \<Rightarrow> iface list \<Rightarrow> Field list \<Rightarrow> Entry list \<Rightarrow> Field list outcome \<times> Entry list" where
  "handleFields_loop l [] flds st = (Return flds, st)"
| "handleFields_loop l [a] flds st =
     (if is_zap_Field_ptr a
      then and_break (zap_DPanic l ''Strongly-typed Zap Field pass to logz'' (Any ''zap field'' a) st) flds
      else and_break (zap_DPanic l ''add number of arguments passed as key-value pairs for logging.''
                        (Any ''ignored key'' a) st) flds)"
| "handleFields_loop l (key # val # rest) flds st =
     (if is_zap_Field_ptr key
      then and_break (zap_DPanic l ''Strongly-typed Zap Field pass to logz'' (Any ''zap field'' key) st) flds
      else (case as_string key of
              None \<Rightarrow>
                and_break (zap_DPanic l ''non-string key argument passed for logging''
                             (Any ''invalid key'' key) st) flds
            | Some keyStr \<Rightarrow>
                handleFields_loop l rest (flds @ [Any keyStr val]) st))"

text \<open>
  \<^verbatim>\<open>make([]zap.Field, n)\<close> with one size argument returns a slice of length
  \<^verbatim>\<open>n\<close> (not of capacity \<^verbatim>\<open>n\<close> and length 0) holding \<^verbatim>\<open>n\<close> zero values, and
  \<^verbatim>\<open>append\<close> adds after them. Go's \<^verbatim>\<open>/\<close> on the non-negative \<^verbatim>\<open>len(args)\<close> is
  \<open>div\<close>. The function returns \<^verbatim>\<open>fields\<close>; \<^verbatim>\<open>additional\<close> is returned
  only on the empty argument list.
\<close>

definition make_Fields :: "nat \<Rightarrow> Field list" where
  "make_Fields n = replicate n ZeroField"

definition handleFields ::
  "zap_Logger \<Rightarrow> iface list \<Rightarrow> Field list \<Rightarrow> Entry list \<Rightarrow> Field list outcome \<times> Entry list" where
  "handleFields l args additional st =
     (if length args = 0 then (Return additional, st)
      else handleFields_loop l args (make_Fields (length args div 2 + length additional)) st)"

text \<open>
  Two notions for stating the properties. A well-formed argument list is the flattening
  \<open>kvs ps\<close> of a list of pairs of a textual key and a value, and
  \<open>pair_field\<close> is the field \<^verbatim>\<open>zap.Any(keyStr, value)\<close> that one pair stands
  for. A pre-built field is a \<^verbatim>\<open>zap.Field\<close>, passed by value or by pointer.
\<close>

definition pair_field :: "string \<times> iface \<Rightarrow> Field" where
  "pair_field p = Any (fst p) (snd p)"

fun kvs :: "(string \<times> iface) list \<Rightarrow> iface list" where
  "kvs [] = []"
| "kvs (p # ps) = IString (fst p) # snd p # kvs ps"

fun is_prebuilt :: "iface \<Rightarrow> bool" where
  "is_prebuilt (IField f) = True"
| "is_prebuilt (IFieldPtr f) = True"
| "is_prebuilt _ = False"

subsection \<open>Info-only loggers (lines 14 to 20 and 66 to 100)\<close>

record infoLogger =
  level :: Level
  log :: zap_Logger

text \<open>
  Modelled from the spec: \<^verbatim>\<open>l.log.Check(level, msg)\<close> and the \<^verbatim>\<open>Write\<close> of the
  entry it returns. Check answers with an entry when the level is enabled (section 4.3:
  an explicit check against the engine before anything is emitted), and also at the
  severities that end the call in a panic or an exit, so that they do; \<^verbatim>\<open>nil\<close> is
  \<open>None\<close>. Writing the entry is a logging call on the engine.
\<close>

record CheckedEntry =
  ce_logger :: zap_Logger
  ce_level :: Level
  ce_message :: message

definition zap_Check :: "zap_Logger \<Rightarrow> Level \<Rightarrow> message \<Rightarrow> CheckedEntry option" where
  "zap_Check l lvl m =
     (if Enabled l lvl \<or> lvl = PanicLevel \<or> lvl = FatalLevel
         \<or> (lvl = DPanicLevel \<and> development l)
      then Some \<lparr>ce_logger = l, ce_level = lvl, ce_message = m\<rparr> else None)"

definition CheckedEntry_Write ::
  "CheckedEntry \<Rightarrow> Field list \<Rightarrow> Entry list \<Rightarrow> unit outcome \<times> Entry list" where
  "CheckedEntry_Write ce fs st = zap_log (ce_logger ce) (ce_level ce) (ce_message ce) fs st"

definition infoLogger_Info ::
  "infoLogger \<Rightarrow> string \<Rightarrow> Field list \<Rightarrow> Entry list \<Rightarrow> unit outcome \<times> Entry list" where
  "infoLogger_Info l msg fs st =
     (case zap_Check (log l) (level l) (Msg msg) of
        None \<Rightarrow> (Return (), st)
      | Some checkEntry \<Rightarrow> CheckedEntry_Write checkEntry fs st)"

definition infoLogger_Infof ::
  "infoLogger \<Rightarrow> string \<Rightarrow> iface list \<Rightarrow> Entry list \<Rightarrow> unit outcome \<times> Entry list" where
  "infoLogger_Infof l template args st =
     (case zap_Check (log l) (level l) (Sprintf template args) of
        None \<Rightarrow> (Return (), st)
      | Some checkEntry \<Rightarrow> CheckedEntry_Write checkEntry [] st)"

text \<open>The argument \<^verbatim>\<open>handleFields(l.log, keyAndValues)\<close> is evaluated before the Write.\<close>

definition infoLogger_Infow ::
  "infoLogger \<Rightarrow> string \<Rightarrow> iface list \<Rightarrow> Entry list \<Rightarrow> unit outcome \<times> Entry list" where
  "infoLogger_Infow l msg keyAndValues st =
     (case zap_Check (log l) (level l) (Msg msg) of
        None \<Rightarrow> (Return (), st)
      | Some checkEntry \<Rightarrow>
          (case handleFields (log l) keyAndValues [] st of
             (Return fs, st') \<Rightarrow> CheckedEntry_Write checkEntry fs st'
           | (Panic m, st') \<Rightarrow> (Panic m, st')
           | (Exit, st') \<Rightarrow> (Exit, st')))"

text \<open>
  The interface \<^verbatim>\<open>InfoLogger\<close> has two implementations: the empty struct
  \<^verbatim>\<open>emptyInfoLogeer\<close>, whose one shared instance is \<^verbatim>\<open>disabledInfoLogeer\<close>, and
  \<^verbatim>\<open>infoLogger\<close>. The four functions below are the interface's methods, dispatched on
  the implementation; the bodies of the empty one are \<^verbatim>\<open>{}\<close> and
  \<^verbatim>\<open>{ return false }\<close>.
\<close>

datatype InfoLogger = emptyInfoLogeer | infoLogger_impl infoLogger

definition disabledInfoLogeer :: InfoLogger where
  "disabledInfoLogeer = emptyInfoLogeer"

fun Info :: "InfoLogger \<Rightarrow> string \<Rightarrow> Field list \<Rightarrow> Entry list \<Rightarrow> unit outcome \<times> Entry list" where
  "Info emptyInfoLogeer msg fs st = (Return (), st)"
| "Info (infoLogger_impl l) msg fs st = infoLogger_Info l msg fs st"

fun Infof :: "InfoLogger \<Rightarrow> string \<Rightarrow> iface list \<Rightarrow> Entry list \<Rightarrow> unit outcome \<times> Entry list" where
  "Infof emptyInfoLogeer template args st = (Return (), st)"
| "Infof (infoLogger_impl l) template args st = infoLogger_Infof l template args st"

fun Infow :: "InfoLogger \<Rightarrow> string \<Rightarrow> iface list \<Rightarrow> Entry list \<Rightarrow> unit outcome \<times> Entry list" where
  "Infow emptyInfoLogeer msg keyAndValues st = (Return (), st)"
| "Infow (infoLogger_impl l) msg keyAndValues st = infoLogger_Infow l msg keyAndValues st"

fun Enable :: "InfoLogger \<Rightarrow> bool" where
  "Enable emptyInfoLogeer = False"
| "Enable (infoLogger_impl l) = True"

subsection \<open>The full logger (lines 131 to 134, 235 to 298)\<close>

text \<open>
  The struct \<^verbatim>\<open>zapLogger\<close>: its field \<^verbatim>\<open>zapLogger\<close> (the engine handle) and the
  embedded \<^verbatim>\<open>infoLogger\<close>; the two fields carry the prefix \<open>zl_\<close> here, the struct
  and its first field sharing one name in the source.
\<close>

record zapLogger =
  zl_zapLogger :: zap_Logger
  zl_infoLogger :: infoLogger

text \<open>
  \<^verbatim>\<open>V(level int)\<close>, lines 235 to 245. Go's \<^verbatim>\<open>int\<close> is a 64-bit word, and the
  conversion \<^verbatim>\<open>zapcore.Level(-1 * level)\<close> to the 8-bit \<^verbatim>\<open>Level\<close> keeps the low
  eight bits of the product.
\<close>

definition zapLogger_V :: "zapLogger \<Rightarrow> 64 word \<Rightarrow> InfoLogger" where
  "zapLogger_V l lev =
     (let lvl = (ucast (- 1 * lev) :: Level) in
      if Enabled (zl_zapLogger l) lvl
      then infoLogger_impl \<lparr>level = lvl, log = zl_zapLogger l\<rparr>
      else disabledInfoLogeer)"

text \<open>
  \<^verbatim>\<open>Write(p []byte) (n int, err error)\<close>, lines 247 to 251. \<^verbatim>\<open>string(p)\<close> is
  the same sequence of bytes read as a string; the \<^verbatim>\<open>nil\<close> error is \<open>None\<close>.
\<close>

type_synonym error = string

definition string_of_bytes :: "8 word list \<Rightarrow> string" where
  "string_of_bytes p = map (\<lambda>b. char_of (unat b)) p"

definition zapLogger_Write :: "zapLogger \<Rightarrow> 8 word list \<Rightarrow> Entry list \<Rightarrow> (int \<times> error option) \<times> Entry list" where
  "zapLogger_Write l p st =
     ((int (length p), None), zap_Info (zl_zapLogger l) (string_of_bytes p) st)"

text \<open>
  Loggers are handed around as pointers \<^verbatim>\<open>*zapLogger\<close>, and every derivation
  allocates a new struct with \<^verbatim>\<open>&zapLogger{...}\<close>. The store keeps the allocated
  structs; an address is an index into it, and a fresh struct goes to the end. The
  world is the store, the records handed to the engine, and the engine logger that the
  process's standard log output is redirected to.
\<close>

record world =
  handed :: "Entry list"
  heap :: "zapLogger list"
  stdlog :: "zap_Logger option"

definition deref :: "world \<Rightarrow> nat \<Rightarrow> zapLogger option" where
  "deref w p = (if p < length (heap w) then Some (heap w ! p) else None)"

definition alloc :: "zapLogger \<Rightarrow> world \<Rightarrow> nat \<times> world" where
  "alloc obj w = (length (heap w), w\<lparr>heap := heap w @ [obj]\<rparr>)"

text \<open>\<^verbatim>\<open>NewLogger\<close>, lines 290 to 298.\<close>

definition NewLogger :: "zap_Logger \<Rightarrow> world \<Rightarrow> nat \<times> world" where
  "NewLogger l w =
     alloc \<lparr>zl_zapLogger = l, zl_infoLogger = \<lparr>level = InfoLevel, log = l\<rparr>\<rparr> w"

text \<open>
  \<^verbatim>\<open>WithValue\<close> (lines 265 to 269) and \<^verbatim>\<open>WithName\<close> (lines 275 to 279) on the
  receiver at address \<open>p\<close>. Reading \<^verbatim>\<open>l.zapLogger\<close> through a pointer that holds no
  struct is Go's nil dereference, a run-time panic. In WithValue the arguments of
  \<^verbatim>\<open>With\<close> are evaluated first, then \<^verbatim>\<open>With\<close> is called, then NewLogger; a panic
  in one of the first two ends the call before anything is allocated.
\<close>

definition nil_dereference :: message where
  "nil_dereference = Msg ''invalid memory address or nil pointer dereference''"

definition WithValue :: "nat \<Rightarrow> iface list \<Rightarrow> world \<Rightarrow> nat outcome \<times> world" where
  "WithValue p keysAndValues w =
     (case deref w p of
        None \<Rightarrow> (Panic nil_dereference, w)
      | Some l \<Rightarrow>
          (case handleFields (zl_zapLogger l) keysAndValues [] (handed w) of
             (Panic m, st') \<Rightarrow> (Panic m, w\<lparr>handed := st'\<rparr>)
           | (Exit, st') \<Rightarrow> (Exit, w\<lparr>handed := st'\<rparr>)
           | (Return fs, st') \<Rightarrow>
               (case zap_With (zl_zapLogger l) fs of
                  Panic m \<Rightarrow> (Panic m, w\<lparr>handed := st'\<rparr>)
                | Exit \<Rightarrow> (Exit, w\<lparr>handed := st'\<rparr>)
                | Return newLogger \<Rightarrow>
                    (case NewLogger newLogger (w\<lparr>handed := st'\<rparr>) of
                       (a, w') \<Rightarrow> (Return a, w')))))"


subsection \<open>New (lines 141 to 200)\<close>

text \<open>
  Modelled from the spec: the type \<^verbatim>\<open>Options\<close> and the constant
  \<^verbatim>\<open>consoleFormat\<close> are missing from src/. The fields are the ones New reads; they
  are the configuration surface of section 6, whose formats are "console" and "json".
\<close>

record Options =
  Level :: string
  Format :: string
  EnableColor :: bool
  Development :: bool
  DisableStacktrace :: bool
  DisableCaller :: bool
  OutputPaths :: "string list"
  ErrorOutputPaths :: "string list"
  Name :: string

definition consoleFormat :: string where
  "consoleFormat = ''console''"

text \<open>
  The engine's configuration structs as New fills them in. The three encoder fields
  that hold fixed functions (\<^verbatim>\<open>timeEncoder\<close>, \<^verbatim>\<open>milliSecondsDurationEncoder\<close>,
  \<^verbatim>\<open>zapcore.ShortCallerEncoder\<close>) are the same in every call and are left out.
  The caller key of the source starts with a tab character.
\<close>

datatype LevelEncoder = CapitalLevelEncoder | CapitalColorLevelEncoder

record EncoderConfig =
  MessageKey :: string
  LevelKey :: string
  TimeKey :: string
  NameKey :: string
  CallerKey :: string
  StacktraceKey :: string
  LineEnding :: string
  EncodeLevel :: LevelEncoder

record SamplingConfig =
  Initial :: int
  Thereafter :: int

record Config =
  cfg_Level :: Level
  cfg_Development :: bool
  cfg_DisableStacktrace :: bool
  cfg_DisableCaller :: bool
  cfg_Sampling :: SamplingConfig
  cfg_Encoding :: string
  cfg_EncoderConfig :: EncoderConfig
  cfg_OutputPaths :: "string list"
  cfg_ErrorOutputPaths :: "string list"

datatype zap_Option = AddStacktrace Level | AddCallerSkip int

text \<open>
  What New calls and src/ does not hold, taken as parameters: the repository's
  \<^verbatim>\<open>NewOptions()\<close>, the engine's parser of a level text
  (\<^verbatim>\<open>zapLevel.UnmarshalText\<close>, \<open>None\<close> when it returns an error) and the engine's
  \<^verbatim>\<open>loggerConfig.Build\<close> (\<open>Inl\<close> when it returns an error).
\<close>

record env =
  NewOptions :: Options
  UnmarshalText :: "string \<Rightarrow> Level option"
  Build :: "Config \<Rightarrow> zap_Option list \<Rightarrow> error + zap_Logger"

text \<open>Lines 145 to 148: the engine level of the configuration.\<close>

definition New_zapLevel :: "env \<Rightarrow> Options \<Rightarrow> Level" where
  "New_zapLevel e opts =
     (case UnmarshalText e (Level opts) of
        None \<Rightarrow> InfoLevel
      | Some zapLevel \<Rightarrow> zapLevel)"

text \<open>Lines 150 to 182: the configuration handed to the engine.\<close>

definition New_loggerConfig :: "Level \<Rightarrow> Options \<Rightarrow> Config" where
  "New_loggerConfig zapLevel opts =
     (let encodeLevel =
            (if Format opts = consoleFormat \<and> EnableColor opts
             then CapitalColorLevelEncoder else CapitalLevelEncoder);
          encodeConfig =
            \<lparr>MessageKey = ''message'', LevelKey = ''level'', TimeKey = ''timestamp'',
             NameKey = ''logger'', CallerKey = CHR 0x09 # ''caller'',
             StacktraceKey = ''stacktrace'', LineEnding = [CHR 0x0A],
             EncodeLevel = encodeLevel\<rparr>
      in \<lparr>cfg_Level = zapLevel,
          cfg_Development = Development opts,
          cfg_DisableStacktrace = DisableStacktrace opts,
          cfg_DisableCaller = DisableCaller opts,
          cfg_Sampling = \<lparr>Initial = 100, Thereafter = 100\<rparr>,
          cfg_Encoding = Format opts,
          cfg_EncoderConfig = encodeConfig,
          cfg_OutputPaths = OutputPaths opts,
          cfg_ErrorOutputPaths = ErrorOutputPaths opts\<rparr>)"

text \<open>
  New itself: \<open>None\<close> is the nil pointer, \<open>Inl err\<close> is \<^verbatim>\<open>panic(err)\<close>, and the
  result is the address of the new struct. \<^verbatim>\<open>zap.RedirectStdLog(l)\<close> sets the
  redirection of the standard log output.
\<close>

definition New :: "env \<Rightarrow> Options option \<Rightarrow> world \<Rightarrow> error + nat \<times> world" where
  "New e opts0 w =
     (let opts = (case opts0 of None \<Rightarrow> NewOptions e | Some given \<Rightarrow> given);
          zapLevel = New_zapLevel e opts;
          loggerConfig = New_loggerConfig zapLevel opts
      in case Build e loggerConfig [AddStacktrace PanicLevel, AddCallerSkip 1] of
           Inl err \<Rightarrow> Inl err
         | Inr l \<Rightarrow>
             (case alloc \<lparr>zl_zapLogger = zap_Named l (Name opts),
                          zl_infoLogger = \<lparr>level = InfoLevel, log = l\<rparr>\<rparr> w of
                (logger, w') \<Rightarrow> Inr (logger, w'\<lparr>stdlog := Some l\<rparr>)))"

text \<open>
  A concrete engine for trying the definitions on inputs; it stands for the engine only
  as far as the examples below go. The parser knows the seven severities by their
  names, in whatever case the ASCII letters are, and reads the empty text as "info". Build knows the
  two encodings "console" and "json" and returns an unnamed logger at the configured
  minimum level and in the configured mode; it opens no output path.
\<close>

definition lower_ascii :: "char \<Rightarrow> char" where
  "lower_ascii c =
     (if (65 :: nat) \<le> of_char c \<and> of_char c \<le> (90 :: nat)
      then char_of (of_char c + (32 :: nat)) else c)"

definition sample_UnmarshalText :: "string \<Rightarrow> Level option" where
  "sample_UnmarshalText t =
     (let s = map lower_ascii t in
      if s = ''debug'' then Some DebugLevel
      else if s = ''info'' \<or> s = [] then Some InfoLevel
      else if s = ''warn'' then Some WarnLevel
      else if s = ''error'' then Some ErrorLevel
      else if s = ''dpanic'' then Some DPanicLevel
      else if s = ''panic'' then Some PanicLevel
      else if s = ''fatal'' then Some FatalLevel
      else None)"

definition sample_Build :: "Config \<Rightarrow> zap_Option list \<Rightarrow> error + zap_Logger" where
  "sample_Build cfg zopts =
     (if cfg_Encoding cfg = ''console'' \<or> cfg_Encoding cfg = ''json''
      then Inr \<lparr>lname = [], bound_fields = [], minLevel = cfg_Level cfg,
                development = cfg_Development cfg\<rparr>
      else Inl ''no encoder registered'')"

definition sample_Options :: Options where
  "sample_Options =
     \<lparr>Level = ''info'', Format = ''console'', EnableColor = False, Development = False,
      DisableStacktrace = False, DisableCaller = False, OutputPaths = [''stdout''],
      ErrorOutputPaths = [''stderr''], Name = []\<rparr>"

definition sample_env :: env where
  "sample_env =
     \<lparr>NewOptions = sample_Options, UnmarshalText = sample_UnmarshalText, Build = sample_Build\<rparr>"

definition empty_world :: world where
  "empty_world = \<lparr>handed = [], heap = [], stdlog = None\<rparr>"

section \<open>Properties of handleFields\<close>

text \<open>
  C4. With an empty argument list handleFields returns the additional list unchanged,
  whatever it is, and hands nothing to the engine; with both lists empty the result is
  the empty field list.
\<close>

theorem handleFields_empty_args:
  "handleFields l [] additional st = (Return additional, st)
   \<and> fst (handleFields l [] [] st) = Return []"
  by (simp add: handleFields_def)

subsection \<open>Shared lemmas about the engine calls and the loop\<close>

text \<open>
  The diagnostics of handleFields carry a field built by \<^verbatim>\<open>zap.Any\<close>: the record is
  handed over, and the call returns unless the engine is in development mode.
\<close>

lemma zap_DPanic_Any:
  "zap_DPanic l msg (Any k v) st =
     ((if development l then Panic (Msg msg) else Return ()),
      st @ [\<lparr>ent_logger = l, ent_level = DPanicLevel, ent_message = Msg msg,
              ent_fields = [Any k v]\<rparr>])"
  by (simp add: zap_DPanic_def zap_log_def after_write_def emit_def
      DPanicLevel_def PanicLevel_def FatalLevel_def)

lemma zap_log_Info_no_fields:
  "zap_log l InfoLevel (Msg msg) [] st = (Return (), zap_Info l msg st)"
  by (simp add: zap_log_def after_write_def zap_Info_def
      InfoLevel_def DPanicLevel_def PanicLevel_def FatalLevel_def)

lemma length_kvs: "length (kvs ps) = 2 * length ps"
  by (induction ps) simp_all

lemma loop_kvs:
  "handleFields_loop l (kvs ps @ rest) flds st =
   handleFields_loop l rest (flds @ map pair_field ps) st"
  by (induction ps arbitrary: flds) (simp_all add: pair_field_def)

lemma loop_kvs_all:
  "handleFields_loop l (kvs ps) flds st = (Return (flds @ map pair_field ps), st)"
  using loop_kvs [of l ps "[]" flds st] by simp

text \<open>
  On a well-formed, non-empty argument list the result is the zero-valued fields of the
  initial \<^verbatim>\<open>make\<close>, as many as there are pairs and additional fields, followed by
  one field for each pair in input order; the additional fields themselves are not in
  it, and nothing is handed to the engine.
\<close>

lemma handleFields_well_formed_pairs:
  "handleFields l (kvs (p # ps)) additional st =
     (Return (replicate (Suc (length ps) + length additional) ZeroField
                @ map pair_field (p # ps)), st)"
  unfolding handleFields_def loop_kvs_all length_kvs make_Fields_def by simp

lemma loop_prebuilt_ptr:
  "handleFields_loop l (IFieldPtr f # rest) flds st =
   ((if development l then Panic (Msg ''Strongly-typed Zap Field pass to logz'') else Return flds),
    st @ [\<lparr>ent_logger = l, ent_level = DPanicLevel,
            ent_message = Msg ''Strongly-typed Zap Field pass to logz'',
            ent_fields = [Any ''zap field'' (IFieldPtr f)]\<rparr>])"
  by (cases rest) (simp_all add: zap_DPanic_Any)

lemma loop_prebuilt_val:
  "handleFields_loop l (IField f # rest) flds st =
   ((if development l
     then Panic (Msg (if rest = []
                      then ''add number of arguments passed as key-value pairs for logging.''
                      else ''non-string key argument passed for logging''))
     else Return flds),
    st @ [\<lparr>ent_logger = l, ent_level = DPanicLevel,
            ent_message = Msg (if rest = []
               then ''add number of arguments passed as key-value pairs for logging.''
               else ''non-string key argument passed for logging''),
            ent_fields = [Any (if rest = [] then ''ignored key'' else ''invalid key'') (IField f)]\<rparr>])"
  by (cases rest) (simp_all add: zap_DPanic_Any)

text \<open>
  Whatever precedes it, a pre-built field at an even index makes the loop hand exactly
  one record to the engine, at the DPanic level: either the scan reaches the field, or
  an earlier key position has already stopped it in the same way.
\<close>

lemma loop_one_diagnostic:
  "even (length xs) \<Longrightarrow> is_prebuilt a \<Longrightarrow>
   \<exists>d. snd (handleFields_loop l (xs @ a # rest) flds st) = st @ [d] \<and> ent_level d = DPanicLevel"
proof (induction xs arbitrary: flds rule: induct_list012)
  case 1
  then show ?case
    by (cases a) (simp_all add: loop_prebuilt_ptr loop_prebuilt_val)
next
  case (2 x)
  then show ?case by simp
next
  case (3 x y zs)
  then have ev: "even (length zs)" by simp
  show ?case
  proof (cases "is_zap_Field_ptr x")
    case True
    then show ?thesis by (simp add: zap_DPanic_Any)
  next
    case False
    show ?thesis
    proof (cases "as_string x")
      case None
      with False show ?thesis by (simp add: zap_DPanic_Any)
    next
      case (Some k)
      with False "3.IH"(1) [OF ev "3.prems"(2)] show ?thesis by simp
    qed
  qed
qed

subsection \<open>Well-formed, odd-length and misused argument lists\<close>

text \<open>
  C1. The claim: for a well-formed argument list of even length (textual keys, no
  pre-built field) and an empty additional list, handleFields returns exactly
  \<^verbatim>\<open>len(args)/2\<close> fields, the i-th carrying key \<^verbatim>\<open>args[2i]\<close> and value
  \<^verbatim>\<open>args[2i+1]\<close>. The code does not: the slice it appends to already holds
  \<^verbatim>\<open>len(args)/2\<close> zero-valued fields. On the one pair "region", "us-east" it
  returns two fields, a zero-valued one and then the pair's, where the claim has one.
\<close>

theorem handleFields_one_pair_result:
  "handleFields l [IString ''region'', IString ''us-east''] [] st =
     (Return [ZeroField, Any ''region'' (IString ''us-east'')], st)
   \<and> map_option length (returned (fst (handleFields l [IString ''region'', IString ''us-east''] [] st)))
       = Some 2
   \<and> length [IString ''region'', IString ''us-east''] div 2 = 1"
  by (simp add: handleFields_def make_Fields_def)

text \<open>
  C2. The claim: on an odd-length argument list with well-formed leading pairs,
  handleFields produces fields only for the leading complete pairs, hands exactly one
  diagnostic record to the engine for the trailing key, and stops; on "region",
  "us-east", "count" exactly one field, region = "us-east", and one diagnostic. The code
  hands over the one diagnostic and stops. On an engine that is not in development mode
  it then returns two fields: the zero-valued field of the initial slice, then the
  field of the pair. On a development engine the diagnostic ends in a panic and no
  field is returned.
\<close>

theorem handleFields_trailing_key_result:
  "handleFields l [IString ''region'', IString ''us-east'', IString ''count''] [] st =
     ((if development l
       then Panic (Msg ''add number of arguments passed as key-value pairs for logging.'')
       else Return [ZeroField, Any ''region'' (IString ''us-east'')]),
      st @ [\<lparr>ent_logger = l, ent_level = DPanicLevel,
              ent_message = Msg ''add number of arguments passed as key-value pairs for logging.'',
              ent_fields = [Any ''ignored key'' (IString ''count'')]\<rparr>])"
  by (simp add: handleFields_def make_Fields_def zap_DPanic_Any)

text \<open>
  C3, amended. Let the pairs \<open>pre\<close> before a key position be well-formed and the
  element at the position be a pre-built field, a pointer \<^verbatim>\<open>*zap.Field\<close> or a
  \<^verbatim>\<open>zap.Field\<close> by value. Then handleFields hands exactly one record to the engine,
  at the DPanic (invariant-violation) level, and reads nothing after the position. On
  an engine that is not in development mode it returns the slice it started from,
  followed by exactly the fields of the pairs \<open>pre\<close> in input order; on a
  development engine it panics with the message of the record. The pointer is caught
  by the type assertion of line 109; the value is not, and is stopped as an unpaired
  key when it is the last element and as a non-string key otherwise. The third part
  needs no well-formed prefix: on every argument list with a pre-built field at an even
  index exactly one record is handed over, at the DPanic level.
\<close>

theorem handleFields_prebuilt_field:
  "handleFields l (kvs pre @ IFieldPtr f # rest) additional st =
     ((if development l then Panic (Msg ''Strongly-typed Zap Field pass to logz'')
       else Return (make_Fields (length (kvs pre @ IFieldPtr f # rest) div 2 + length additional)
                      @ map pair_field pre)),
      st @ [\<lparr>ent_logger = l, ent_level = DPanicLevel,
              ent_message = Msg ''Strongly-typed Zap Field pass to logz'',
              ent_fields = [Any ''zap field'' (IFieldPtr f)]\<rparr>])
   \<and> handleFields l (kvs pre @ IField f # rest) additional st =
     ((if development l
       then Panic (Msg (if rest = []
                        then ''add number of arguments passed as key-value pairs for logging.''
                        else ''non-string key argument passed for logging''))
       else Return (make_Fields (length (kvs pre @ IField f # rest) div 2 + length additional)
                      @ map pair_field pre)),
      st @ [\<lparr>ent_logger = l, ent_level = DPanicLevel,
              ent_message = Msg (if rest = []
                 then ''add number of arguments passed as key-value pairs for logging.''
                 else ''non-string key argument passed for logging''),
              ent_fields = [Any (if rest = [] then ''ignored key'' else ''invalid key'') (IField f)]\<rparr>])
   \<and> (even (length xs) \<and> is_prebuilt a \<longrightarrow>
        (\<exists>d. snd (handleFields l (xs @ a # rest) additional st) = st @ [d]
             \<and> ent_level d = DPanicLevel))"
proof (intro conjI impI)
  show "handleFields l (kvs pre @ IFieldPtr f # rest) additional st =
     ((if development l then Panic (Msg ''Strongly-typed Zap Field pass to logz'')
       else Return (make_Fields (length (kvs pre @ IFieldPtr f # rest) div 2 + length additional)
                      @ map pair_field pre)),
      st @ [\<lparr>ent_logger = l, ent_level = DPanicLevel,
              ent_message = Msg ''Strongly-typed Zap Field pass to logz'',
              ent_fields = [Any ''zap field'' (IFieldPtr f)]\<rparr>])"
    by (simp add: handleFields_def loop_kvs loop_prebuilt_ptr)
  show "handleFields l (kvs pre @ IField f # rest) additional st =
     ((if development l
       then Panic (Msg (if rest = []
                        then ''add number of arguments passed as key-value pairs for logging.''
                        else ''non-string key argument passed for logging''))
       else Return (make_Fields (length (kvs pre @ IField f # rest) div 2 + length additional)
                      @ map pair_field pre)),
      st @ [\<lparr>ent_logger = l, ent_level = DPanicLevel,
              ent_message = Msg (if rest = []
                 then ''add number of arguments passed as key-value pairs for logging.''
                 else ''non-string key argument passed for logging''),
              ent_fields = [Any (if rest = [] then ''ignored key'' else ''invalid key'') (IField f)]\<rparr>])"
    by (simp add: handleFields_def loop_kvs loop_prebuilt_val)
  assume "even (length xs) \<and> is_prebuilt a"
  then show "\<exists>d. snd (handleFields l (xs @ a # rest) additional st) = st @ [d]
             \<and> ent_level d = DPanicLevel"
    by (simp add: handleFields_def loop_one_diagnostic)
qed

text \<open>On an engine that is not in development mode, by value after one pair.\<close>

theorem handleFields_prebuilt_field_witness:
  "even (length [IInt 1, IBool True]) \<and> is_prebuilt (IField (Any ''a'' (IInt 2)))
   \<and> snd (handleFields \<lparr>lname = [], bound_fields = [], minLevel = InfoLevel, development = False\<rparr>
            [IInt 1, IBool True, IField (Any ''a'' (IInt 2)), IInt 7] [] []) =
       [\<lparr>ent_logger = \<lparr>lname = [], bound_fields = [], minLevel = InfoLevel, development = False\<rparr>,
         ent_level = DPanicLevel,
         ent_message = Msg ''non-string key argument passed for logging'',
         ent_fields = [Any ''invalid key'' (IInt 1)]\<rparr>]
   \<and> handleFields \<lparr>lname = [], bound_fields = [], minLevel = InfoLevel, development = False\<rparr>
        [IString ''region'', IString ''us-east'', IField (Any ''a'' (IInt 2)), IInt 7] [] [] =
       (Return [ZeroField, ZeroField, Any ''region'' (IString ''us-east'')],
        [\<lparr>ent_logger = \<lparr>lname = [], bound_fields = [], minLevel = InfoLevel, development = False\<rparr>,
          ent_level = DPanicLevel,
          ent_message = Msg ''non-string key argument passed for logging'',
          ent_fields = [Any ''invalid key'' (IField (Any ''a'' (IInt 2)))]\<rparr>])"
  using handleFields_prebuilt_field
    [where l = "\<lparr>lname = [], bound_fields = [], minLevel = InfoLevel, development = False\<rparr>"
       and pre = "[(''region'', IString ''us-east'')]" and f = "Any ''a'' (IInt 2)"
       and rest = "[IInt 7]" and additional = "[]" and st = "[]"
       and xs = "[IInt 1, IBool True]" and a = "IField (Any ''a'' (IInt 2))"]
  by (simp add: handleFields_def make_Fields_def zap_DPanic_Any pair_field_def)

text \<open>
  The claim C3 as first stated: when the element at a key position is a pre-built field, handleFields
  hands one diagnostic to the engine and stops, the fields of the earlier pairs being
  kept. On a development engine this is not so: the diagnostic is handed over and the
  call panics, so that no field comes back. One well-formed pair before a pointer to a
  field, on a development engine:
\<close>

theorem handleFields_prebuilt_field_development:
  "handleFields \<lparr>lname = [], bound_fields = [], minLevel = InfoLevel, development = True\<rparr>
     [IString ''region'', IString ''us-east'', IFieldPtr (Any ''a'' (IInt 2))] [] [] =
   (Panic (Msg ''Strongly-typed Zap Field pass to logz''),
    [\<lparr>ent_logger = \<lparr>lname = [], bound_fields = [], minLevel = InfoLevel, development = True\<rparr>,
      ent_level = DPanicLevel,
      ent_message = Msg ''Strongly-typed Zap Field pass to logz'',
      ent_fields = [Any ''zap field'' (IFieldPtr (Any ''a'' (IInt 2)))]\<rparr>])"
  by (simp add: handleFields_def make_Fields_def zap_DPanic_Any)

section \<open>Properties of the verbosity gate\<close>

text \<open>
  Within the range of the 8-bit level, that is for verbosity numbers from 0 to 128, the
  conversion is the negation and the gate is monotone.
\<close>

lemma Level_of_neg:
  assumes "0 \<le> sint v" and "sint v \<le> 128"
  shows "sint (ucast (- 1 * (v :: 64 word)) :: Level) = - sint v"
proof -
  define k where "k = sint v"
  have e1: "- 1 * v = (word_of_int (- k) :: 64 word)"
    by (simp add: k_def)
  have e2: "(ucast (word_of_int (- k) :: 64 word) :: Level) = word_of_int (- k)"
    by (rule ucast_down_wi) (simp add: is_down)
  have e3: "sint (word_of_int (- k) :: Level) = signed_take_bit 7 (- k)"
    by (simp only: sint_sbintrunc') simp
  have e4: "signed_take_bit 7 (- k) = - k"
    using assms by (intro signed_take_bit_int_eq_self) (simp_all add: k_def)
  show ?thesis
    by (simp only: e1 e2 e3 e4) (simp add: k_def)
qed

lemma V_monotone_up_to_128:
  assumes "0 \<le> sint V1" and "sint V1 < sint V2" and "sint V2 \<le> 128"
    and "Enable (zapLogger_V l V2)"
  shows "Enable (zapLogger_V l V1)"
proof -
  have 2: "sint (ucast (- 1 * V2) :: Level) = - sint V2"
    using assms by (intro Level_of_neg) simp_all
  have 1: "sint (ucast (- 1 * V1) :: Level) = - sint V1"
    using assms by (intro Level_of_neg) simp_all
  from assms(4) have "Enabled (zl_zapLogger l) (ucast (- 1 * V2))"
    by (simp add: zapLogger_V_def Let_def disabledInfoLogeer_def split: if_splits)
  then have "Enabled (zl_zapLogger l) (ucast (- 1 * V1))"
    using assms(2) unfolding Enabled_def 1 2 by simp
  then show ?thesis
    by (simp add: zapLogger_V_def Let_def)
qed

text \<open>
  C5. The claim: for non-negative verbosity numbers V1 < V2 under one minimum level, if
  V(V2) returns a real logger then so does V(V1). The source says the same of V: the
  larger the level, the lower the severity (lines 46 to 48). The conversion to the
  8-bit level keeps only the low eight bits of -V, so 256 becomes level 0, the
  informational severity itself: under the minimum level "info", V(256) returns a real
  logger and V(1) returns the no-op logger.
\<close>

theorem V_256_enabled_V_1_disabled:
  "Enable (zapLogger_V \<lparr>zl_zapLogger = \<lparr>lname = [], bound_fields = [], minLevel = InfoLevel, development = dev\<rparr>,
                         zl_infoLogger = il\<rparr> 256) = True
   \<and> Enable (zapLogger_V \<lparr>zl_zapLogger = \<lparr>lname = [], bound_fields = [], minLevel = InfoLevel, development = dev\<rparr>,
                           zl_infoLogger = il\<rparr> 1) = False"
proof -
  have a: "(ucast (- 1 * (256 :: 64 word)) :: Level) = 0" by code_simp
  have b: "(ucast (- 1 * (1 :: 64 word)) :: Level) = - 1" by code_simp
  show ?thesis
    unfolding zapLogger_V_def Let_def a b
    by (simp add: Enabled_def InfoLevel_def disabledInfoLogeer_def)
qed

text \<open>
  C6. When the engine reports the level of a verbosity number as not enabled, V returns
  the shared no-op logger \<^verbatim>\<open>disabledInfoLogeer\<close>; its Enable is false, and its
  Info, Infof and Infow return with the engine state as it is, for every argument.
\<close>

theorem V_disabled_is_noop:
  "\<not> Enabled (zl_zapLogger l) (ucast (- 1 * lev)) \<Longrightarrow>
     zapLogger_V l lev = disabledInfoLogeer
   \<and> Enable (zapLogger_V l lev) = False
   \<and> Info (zapLogger_V l lev) msg fs st = (Return (), st)
   \<and> Infof (zapLogger_V l lev) template args st = (Return (), st)
   \<and> Infow (zapLogger_V l lev) msg keysAndValues st = (Return (), st)"
  by (simp add: zapLogger_V_def Let_def disabledInfoLogeer_def)

text \<open>The scenario of the specification: V(2) where verbosity is enabled up to 1.\<close>

theorem V_disabled_is_noop_witness:
  "\<not> Enabled \<lparr>lname = [], bound_fields = [], minLevel = DebugLevel, development = False\<rparr> (ucast (- 1 * (2 :: 64 word)))
   \<and> Enable (zapLogger_V \<lparr>zl_zapLogger = \<lparr>lname = [], bound_fields = [], minLevel = DebugLevel, development = False\<rparr>,
                           zl_infoLogger = \<lparr>level = InfoLevel,
                              log = \<lparr>lname = [], bound_fields = [], minLevel = DebugLevel, development = False\<rparr>\<rparr>\<rparr> 2) = False
   \<and> Infow (zapLogger_V \<lparr>zl_zapLogger = \<lparr>lname = [], bound_fields = [], minLevel = DebugLevel, development = False\<rparr>,
                           zl_infoLogger = \<lparr>level = InfoLevel,
                              log = \<lparr>lname = [], bound_fields = [], minLevel = DebugLevel, development = False\<rparr>\<rparr>\<rparr> 2)
        ''m'' [IString ''k'', IInt 1] [] = (Return (), [])"
proof -
  have lv: "sint (ucast (- 1 * (2 :: 64 word)) :: Level) = - 2" by code_simp
  have h: "\<not> Enabled \<lparr>lname = [], bound_fields = [], minLevel = DebugLevel, development = False\<rparr> (ucast (- 1 * (2 :: 64 word)))"
    unfolding Enabled_def lv by (simp add: DebugLevel_def)
  show ?thesis
    using h V_disabled_is_noop
      [where l = "\<lparr>zl_zapLogger = \<lparr>lname = [], bound_fields = [], minLevel = DebugLevel, development = False\<rparr>,
                   zl_infoLogger = \<lparr>level = InfoLevel,
                      log = \<lparr>lname = [], bound_fields = [], minLevel = DebugLevel, development = False\<rparr>\<rparr>\<rparr>"
         and lev = 2 and msg = "''m''" and keysAndValues = "[IString ''k'', IInt 1]" and st = "[]"]
    by (simp add: disabledInfoLogeer_def)
qed

section \<open>Properties of the full logger\<close>

text \<open>
  C7. For every byte sequence, Write returns the length of the sequence and the nil
  error. It hands the bytes, read as a string, to the engine as one informational
  record; the result does not depend on what the engine does with it.
\<close>

theorem Write_reports_full_length:
  "fst (zapLogger_Write l p st) = (int (length p), None)
   \<and> snd (zapLogger_Write l p st) =
       st @ [\<lparr>ent_logger = zl_zapLogger l, ent_level = InfoLevel,
               ent_message = Msg (string_of_bytes p), ent_fields = []\<rparr>]"
  by (simp add: zapLogger_Write_def zap_Info_def emit_def)




text \<open>
  On a well-formed pair WithValue does not return either, on any engine: the first
  field it passes to \<^verbatim>\<open>With\<close> is the zero-valued field of line 107, which the
  engine cannot encode. Nothing is allocated and nothing is handed over.
\<close>

lemma WithValue_pair_panics:
  assumes "deref w L = Some l"
  shows "WithValue L (kvs (p # ps)) w = (Panic (Msg ''unknown field type''), w)"
  using assms
  by (simp add: WithValue_def handleFields_well_formed_pairs zap_With_def del: kvs.simps)

section \<open>Properties of New\<close>

text \<open>
  C9. When the level text of the configuration does not parse as an engine level, New
  goes on with the informational level: the configuration it hands to the engine has
  the level "info", New returns a logger whenever the engine builds one from that
  configuration, and the only error New can end with is the engine's own error for
  that configuration. The malformed text itself raises nothing.
\<close>

theorem New_malformed_level:
  assumes "UnmarshalText e (Level opts) = None"
  shows "New_zapLevel e opts = InfoLevel
       \<and> cfg_Level (New_loggerConfig (New_zapLevel e opts) opts) = InfoLevel
       \<and> (\<forall>l. Build e (New_loggerConfig InfoLevel opts) [AddStacktrace PanicLevel, AddCallerSkip 1] = Inr l
              \<longrightarrow> (\<exists>logger w'. New e (Some opts) w = Inr (logger, w')
                     \<and> deref w' logger = Some \<lparr>zl_zapLogger = zap_Named l (Name opts),
                                               zl_infoLogger = \<lparr>level = InfoLevel, log = l\<rparr>\<rparr>))
       \<and> (\<forall>err. New e (Some opts) w = Inl err
              \<longrightarrow> Build e (New_loggerConfig InfoLevel opts) [AddStacktrace PanicLevel, AddCallerSkip 1] = Inl err)"
proof -
  from assms have lv: "New_zapLevel e opts = InfoLevel"
    by (simp add: New_zapLevel_def)
  have cfg: "cfg_Level (New_loggerConfig zapLevel opts) = zapLevel" for zapLevel
    by (simp add: New_loggerConfig_def Let_def)
  have ok: "\<exists>logger w'. New e (Some opts) w = Inr (logger, w')
                     \<and> deref w' logger = Some \<lparr>zl_zapLogger = zap_Named l (Name opts),
                                               zl_infoLogger = \<lparr>level = InfoLevel, log = l\<rparr>\<rparr>"
    if "Build e (New_loggerConfig InfoLevel opts) [AddStacktrace PanicLevel, AddCallerSkip 1] = Inr l" for l
    using that by (simp add: New_def Let_def lv alloc_def deref_def)
  have err: "Build e (New_loggerConfig InfoLevel opts) [AddStacktrace PanicLevel, AddCallerSkip 1] = Inl err"
    if "New e (Some opts) w = Inl err" for err
    using that by (simp add: New_def Let_def lv alloc_def split: sum.splits)
  from lv cfg ok err show ?thesis by simp
qed

text \<open>The level text "verbose" with the sample engine: a logger at the level "info".\<close>

theorem New_malformed_level_witness:
  "UnmarshalText sample_env (Level (sample_Options\<lparr>Level := ''verbose''\<rparr>)) = None
   \<and> New_zapLevel sample_env (sample_Options\<lparr>Level := ''verbose''\<rparr>) = InfoLevel
   \<and> New sample_env (Some (sample_Options\<lparr>Level := ''verbose''\<rparr>)) empty_world =
       Inr (0, \<lparr>handed = [],
                heap = [\<lparr>zl_zapLogger = \<lparr>lname = [], bound_fields = [], minLevel = InfoLevel, development = False\<rparr>,
                         zl_infoLogger = \<lparr>level = InfoLevel,
                            log = \<lparr>lname = [], bound_fields = [], minLevel = InfoLevel, development = False\<rparr>\<rparr>\<rparr>],
                stdlog = Some \<lparr>lname = [], bound_fields = [], minLevel = InfoLevel, development = False\<rparr>\<rparr>)"
proof -
  have h: "UnmarshalText sample_env (Level (sample_Options\<lparr>Level := ''verbose''\<rparr>)) = None"
    by (simp add: sample_env_def sample_Options_def sample_UnmarshalText_def lower_ascii_def)
  from New_malformed_level [OF h, of empty_world]
  have lv: "New_zapLevel sample_env (sample_Options\<lparr>Level := ''verbose''\<rparr>) = InfoLevel"
    by simp
  show ?thesis
    using h lv
    by (simp add: New_def Let_def New_loggerConfig_def sample_env_def sample_Options_def
        sample_Build_def alloc_def empty_world_def zap_Named_def consoleFormat_def)
qed

text \<open>
  C10. New called with the nil pointer does not fail on the pointer: it does what New
  does with the configuration that \<^verbatim>\<open>NewOptions()\<close> returns, the same result and
  the same world in every case. Whenever the engine builds a logger from that default
  configuration, New returns the address of a new struct that holds the built logger,
  named by the default name, and the informational level, and redirects the standard
  log output to the built logger; the only error it can end with is the engine's own
  error for the default configuration.
\<close>

theorem New_nil_options:
  "New e None w = New e (Some (NewOptions e)) w
   \<and> (\<forall>l. Build e (New_loggerConfig (New_zapLevel e (NewOptions e)) (NewOptions e))
              [AddStacktrace PanicLevel, AddCallerSkip 1] = Inr l
          \<longrightarrow> New e None w =
                Inr (length (heap w),
                     w\<lparr>heap := heap w @ [\<lparr>zl_zapLogger = zap_Named l (Name (NewOptions e)),
                                           zl_infoLogger = \<lparr>level = InfoLevel, log = l\<rparr>\<rparr>],
                       stdlog := Some l\<rparr>)
              \<and> deref (snd (projr (New e None w))) (length (heap w))
                  = Some \<lparr>zl_zapLogger = zap_Named l (Name (NewOptions e)),
                          zl_infoLogger = \<lparr>level = InfoLevel, log = l\<rparr>\<rparr>)
   \<and> (\<forall>err. New e None w = Inl err
          \<longrightarrow> Build e (New_loggerConfig (New_zapLevel e (NewOptions e)) (NewOptions e))
                [AddStacktrace PanicLevel, AddCallerSkip 1] = Inl err)"
proof (intro conjI allI impI)
  show "New e None w = New e (Some (NewOptions e)) w"
    by (simp add: New_def)
next
  fix l
  assume b: "Build e (New_loggerConfig (New_zapLevel e (NewOptions e)) (NewOptions e))
              [AddStacktrace PanicLevel, AddCallerSkip 1] = Inr l"
  then show n: "New e None w =
                Inr (length (heap w),
                     w\<lparr>heap := heap w @ [\<lparr>zl_zapLogger = zap_Named l (Name (NewOptions e)),
                                           zl_infoLogger = \<lparr>level = InfoLevel, log = l\<rparr>\<rparr>],
                       stdlog := Some l\<rparr>)"
    by (simp add: New_def Let_def alloc_def)
  show "deref (snd (projr (New e None w))) (length (heap w))
          = Some \<lparr>zl_zapLogger = zap_Named l (Name (NewOptions e)),
                  zl_infoLogger = \<lparr>level = InfoLevel, log = l\<rparr>\<rparr>"
    by (simp add: n deref_def)
next
  fix err
  assume "New e None w = Inl err"
  then show "Build e (New_loggerConfig (New_zapLevel e (NewOptions e)) (NewOptions e))
                [AddStacktrace PanicLevel, AddCallerSkip 1] = Inl err"
    by (simp add: New_def Let_def alloc_def split: sum.splits)
qed

text \<open>The sample engine and its default configuration, on the empty world.\<close>

theorem New_nil_options_witness:
  "Build sample_env (New_loggerConfig (New_zapLevel sample_env (NewOptions sample_env))
                       (NewOptions sample_env))
     [AddStacktrace PanicLevel, AddCallerSkip 1]
     = Inr \<lparr>lname = [], bound_fields = [], minLevel = InfoLevel, development = False\<rparr>
   \<and> New sample_env None empty_world =
       Inr (0, \<lparr>handed = [],
                heap = [\<lparr>zl_zapLogger = \<lparr>lname = [], bound_fields = [], minLevel = InfoLevel, development = False\<rparr>,
                         zl_infoLogger = \<lparr>level = InfoLevel,
                            log = \<lparr>lname = [], bound_fields = [], minLevel = InfoLevel, development = False\<rparr>\<rparr>\<rparr>],
                stdlog = Some \<lparr>lname = [], bound_fields = [], minLevel = InfoLevel, development = False\<rparr>\<rparr>)"
proof -
  have b: "Build sample_env (New_loggerConfig (New_zapLevel sample_env (NewOptions sample_env))
                       (NewOptions sample_env))
     [AddStacktrace PanicLevel, AddCallerSkip 1]
     = Inr \<lparr>lname = [], bound_fields = [], minLevel = InfoLevel, development = False\<rparr>"
    by (simp add: sample_env_def sample_Build_def New_loggerConfig_def New_zapLevel_def
        sample_UnmarshalText_def lower_ascii_def sample_Options_def Let_def)
  from New_nil_options [of sample_env empty_world] b
  have "New sample_env None empty_world =
          Inr (length (heap empty_world),
               empty_world\<lparr>heap := heap empty_world @
                   [\<lparr>zl_zapLogger = zap_Named \<lparr>lname = [], bound_fields = [], minLevel = InfoLevel, development = False\<rparr>
                                       (Name (NewOptions sample_env)),
                     zl_infoLogger = \<lparr>level = InfoLevel,
                        log = \<lparr>lname = [], bound_fields = [], minLevel = InfoLevel, development = False\<rparr>\<rparr>\<rparr>],
                 stdlog := Some \<lparr>lname = [], bound_fields = [], minLevel = InfoLevel, development = False\<rparr>\<rparr>)"
    by blast
  then show ?thesis
    using b by (simp add: empty_world_def sample_env_def sample_Options_def zap_Named_def)
qed

end
